theory Spec2Isabelle
  imports Main "HOL-Library.AList"
begin

section \<open>Values, errors and outcomes\<close>

text \<open>
  The program is JavaScript. An object used as a dictionary is an association list in
  the object's enumeration order: its own properties, with distinct keys, built with
  \<open>AList.update\<close> (a new key goes last, an existing key keeps its place) and
  \<open>AList.delete\<close>. Keys are taken not to be array-index strings, for which the
  enumeration order of an object differs. A read by key goes through the prototype chain
  (\<open>jsGet\<close> below).

  A leading underscore of a source name is dropped (\<open>_onChangedIP\<close> is \<open>onChangedIP\<close>);
  the methods of \<open>ProxyRateClient\<close> carry the prefix \<open>client_\<close>.
\<close>

datatype error =
    DuplicateCircuit        \<comment> \<open>DIE in addCircuit: the circuit already exists\<close>
  | UnnamedRigidCircuit     \<comment> \<open>DIE in addCircuit: a named circuit must have a name\<close>
  | CircuitNotInPool        \<comment> \<open>DIE in _removeCircuit: not in this.circuits\<close>
  | AllCircuitsUnhealthy    \<comment> \<open>DIE in onAllCircuitsUnhealthy\<close>
  | MissingIP               \<comment> \<open>DIE in _onChangedIP: newIp must be provided\<close>
  | MissingActionName       \<comment> \<open>DIE: 2nd argument must be actionName\<close>
  | RigidCircuitMisuse      \<comment> \<open>DIE in the client: rigid circuit outside of pool\<close>
  | IPChangeExhausted       \<comment> \<open>DIE in _definitivelyChangeToAvailableIP after the last try\<close>
  | TorNotFound             \<comment> \<open>DIE in _changeExitNode: no tor process\<close>
  | TypeError               \<comment> \<open>a property read or a call on undefined\<close>
  | ReferenceError          \<comment> \<open>a read of an identifier that is bound nowhere\<close>
  | IOError                 \<comment> \<open>an error thrown by the file system or by ps\<close>

text \<open>
  \<open>DIE\<close> (exported to the global object by the logger package) ends the operation: the
  source says of its own default hook that it "DIES / CRASHES PROGRAM". An operation
  returns a value, throws, or is still pending when the modelled run ends: it awaits a
  waiter release, or its loop still runs when the supplied random draws or probe answers
  are used up. The outcome \<open>Unmodelled\<close> marks the one situation that the model declines:
  a read of a property of a built-in member of \<open>Object.prototype\<close>, whose properties
  depend on the host. A throw leaves the mutations made before it in place, so every operation
  returns the state with its outcome. An asynchronous operation is modelled as one run
  without interleaving: what each \<open>await\<close> on the environment (a probe, a process
  signal, a file write) yields is a parameter of the operation, and so is the clock.
\<close>

datatype 'a outcome = Returns 'a | Throws error | Pending | Unmodelled

datatype jsval = JUndefined | JBool bool

text \<open>A property key made from a value that may be null: \<open>obj[null]\<close> reads \<open>obj["null"]\<close>.\<close>

definition prop_key :: "string option \<Rightarrow> string" where
  "prop_key v = (case v of None \<Rightarrow> ''null'' | Some k \<Rightarrow> k)"

text \<open>Truthiness of a string that may be null: null and the empty string are falsy.\<close>

definition truthy_str :: "string option \<Rightarrow> bool" where
  "truthy_str v = (case v of None \<Rightarrow> False | Some k \<Rightarrow> k \<noteq> [])"

definition truthy_num :: "int option \<Rightarrow> bool" where
  "truthy_num v = (case v of None \<Rightarrow> False | Some n \<Rightarrow> n \<noteq> 0)"

text \<open>
  The dictionaries of the program are object literals and objects made by \<open>JSON.parse\<close>:
  they inherit from \<open>Object.prototype\<close>. Reading a key that the object does not own
  yields the member of \<open>Object.prototype\<close> of that name, when there is one, and undefined
  otherwise. The table lists the members (ECMAScript with its annex B, as in Node) with
  the \<open>length\<close> of each member that is a function; \<open>__proto__\<close> is an accessor whose
  value, \<open>Object.prototype\<close> itself, has no \<open>length\<close>. Every member is truthy.
\<close>

definition objectPrototype :: "(string \<times> nat option) list" where
  "objectPrototype =
     [(''constructor'', Some 1), (''toString'', Some 0), (''toLocaleString'', Some 0),
      (''valueOf'', Some 0), (''hasOwnProperty'', Some 1), (''isPrototypeOf'', Some 1),
      (''propertyIsEnumerable'', Some 1), (''__defineGetter__'', Some 2),
      (''__defineSetter__'', Some 2), (''__lookupGetter__'', Some 1),
      (''__lookupSetter__'', Some 1), (''__proto__'', None)]"

datatype 'a lookup = Own 'a | Inherited "nat option" | Missing

definition jsGet :: "(string \<times> 'a) list \<Rightarrow> string \<Rightarrow> 'a lookup" where
  "jsGet obj k =
     (case map_of obj k of
        Some v \<Rightarrow> Own v
      | None \<Rightarrow> (case map_of objectPrototype k of
                   Some m \<Rightarrow> Inherited m
                 | None \<Rightarrow> Missing))"

text \<open>
  An assignment \<open>obj[k] = v\<close>. For the key \<open>__proto__\<close> that the object does not own, the
  assignment goes to the accessor of \<open>Object.prototype\<close>: it replaces the prototype when
  \<open>v\<close> is an object and does nothing when \<open>v\<close> is a number, and the own properties stay as
  they are. (It is used for \<open>actionLimits\<close>, \<open>actionResetTimes\<close> and \<open>namedCircuits\<close>; no
  operation modelled here reads \<open>namedCircuits\<close> by key.) As a consequence \<open>__proto__\<close>
  is never an own key of \<open>actionLimits\<close> or \<open>actionResetTimes\<close>.
\<close>

definition jsSet :: "string \<Rightarrow> 'a \<Rightarrow> (string \<times> 'a) list \<Rightarrow> (string \<times> 'a) list" where
  "jsSet k v obj =
     (if k = ''__proto__'' \<and> map_of obj k = None then obj else AList.update k v obj)"

text \<open>The decimal digits of a number inside a template literal.\<close>

definition digit_char :: "nat \<Rightarrow> char" where
  "digit_char d = ''0123456789'' ! d"

fun string_of_nat :: "nat \<Rightarrow> string" where
  "string_of_nat n =
     (if n < 10 then [digit_char n]
      else string_of_nat (n div 10) @ [digit_char (n mod 10)])"

declare string_of_nat.simps [simp del]

section \<open>ProxyCircuit\<close>

record ProxyCircuit =
  host :: string
  port :: nat
  username :: "string option"
  password :: "string option"
  ctype :: string                       \<comment> \<open>the property \<open>type\<close>\<close>
  poll_wait_interval :: "int option"
  cname :: "string option"              \<comment> \<open>the property \<open>name\<close>\<close>
  addToCyclingCircuitPool :: bool
  isLocalTor :: bool
  activeExitNodeIP :: "string option"
  lastIPPollTime :: int
  healInterval :: int
  healAmountPerInterval :: int
  health :: int
  valid :: bool
  pollingClient :: "nat option"

text \<open>
  The argument of the constructor: a circuit definition as the README writes them. A
  field is \<open>None\<close> when the key is absent, and \<open>Object.assign\<close> copies the keys that are
  present.
\<close>

record circuitDetails =
  d_host :: "string option"
  d_port :: "nat option"
  d_username :: "string option"
  d_password :: "string option"
  d_type :: "string option"
  d_poll_wait_interval :: "int option"
  d_name :: "string option"
  d_addToCyclingCircuitPool :: "bool option"
  d_isLocalTor :: "bool option"
  d_activeExitNodeIP :: "string option"
  d_lastIPPollTime :: "int option"
  d_healInterval :: "int option"
  d_healAmountPerInterval :: "int option"

text \<open>The object as \<open>new\<close> hands it to the constructor: every property undefined.\<close>

definition blankCircuit :: ProxyCircuit where
  "blankCircuit = \<lparr> host = [], port = 0, username = None, password = None, ctype = [],
     poll_wait_interval = None, cname = None, addToCyclingCircuitPool = False,
     isLocalTor = False, activeExitNodeIP = None, lastIPPollTime = 0, healInterval = 0,
     healAmountPerInterval = 0, health = 0, valid = False, pollingClient = None \<rparr>"

text \<open>\<open>Object.assign(this, circuitDefaults)\<close>: every key of the defaults is written.\<close>

definition assignDefaults :: "ProxyCircuit \<Rightarrow> ProxyCircuit" where
  "assignDefaults c = c\<lparr> host := ''0.0.0.0'', port := 9050, username := None,
     password := None, ctype := ''socks5h'', poll_wait_interval := None, cname := None,
     addToCyclingCircuitPool := True, isLocalTor := False, activeExitNodeIP := None,
     lastIPPollTime := 0, healInterval := 1000 * 60 * 20, healAmountPerInterval := 10 \<rparr>"

definition orElse :: "'a option \<Rightarrow> 'a \<Rightarrow> 'a" where
  "orElse v dflt = (case v of None \<Rightarrow> dflt | Some x \<Rightarrow> x)"

definition orKeep :: "'a option \<Rightarrow> 'a option \<Rightarrow> 'a option" where
  "orKeep v old = (case v of None \<Rightarrow> old | Some x \<Rightarrow> Some x)"

text \<open>\<open>Object.assign(this, ..., args)\<close>: the keys that \<open>args\<close> has override.\<close>

definition assignArgs :: "ProxyCircuit \<Rightarrow> circuitDetails \<Rightarrow> ProxyCircuit" where
  "assignArgs c d = c\<lparr> host := orElse (d_host d) (host c),
     port := orElse (d_port d) (port c),
     username := orKeep (d_username d) (username c),
     password := orKeep (d_password d) (password c),
     ctype := orElse (d_type d) (ctype c),
     poll_wait_interval := orKeep (d_poll_wait_interval d) (poll_wait_interval c),
     cname := orKeep (d_name d) (cname c),
     addToCyclingCircuitPool := orElse (d_addToCyclingCircuitPool d) (addToCyclingCircuitPool c),
     isLocalTor := orElse (d_isLocalTor d) (isLocalTor c),
     activeExitNodeIP := orKeep (d_activeExitNodeIP d) (activeExitNodeIP c),
     lastIPPollTime := orElse (d_lastIPPollTime d) (lastIPPollTime c),
     healInterval := orElse (d_healInterval d) (healInterval c),
     healAmountPerInterval := orElse (d_healAmountPerInterval d) (healAmountPerInterval c) \<rparr>"

text \<open>
  The constructor, statement by statement. The poll interval is computed first, from
  \<open>this.poll_wait_interval\<close> and \<open>this.isLocalTor\<close> of the blank object, and the two
  \<open>Object.assign\<close> sources are written over the result. The heal timer that the last
  statement starts is not part of the model.
\<close>

definition new_ProxyCircuit :: "circuitDetails \<Rightarrow> ProxyCircuit" where
  "new_ProxyCircuit args =
     (let this0 = blankCircuit;
          this1 = this0\<lparr> poll_wait_interval :=
                    (if truthy_num (poll_wait_interval this0) then poll_wait_interval this0
                     else Some (if isLocalTor this0 then 1000 * 5 else 1000 * 60 * 2)) \<rparr>;
          this2 = this1\<lparr> health := 100, valid := True, pollingClient := None \<rparr>;
          this3 = assignDefaults this2
      in assignArgs this3 args)"

definition getProxyIDString :: "ProxyCircuit \<Rightarrow> string" where
  "getProxyIDString c =
     (let unpw = (if truthy_str (username c) \<or> truthy_str (password c)
                  then (if truthy_str (username c) then the (username c) else [])
                       @ '':''
                       @ (if truthy_str (password c) then the (password c) else [])
                       @ ''@''
                  else [])
      in ctype c @ ''://'' @ unpw @ host c @ '':'' @ string_of_nat (port c))"

definition getIdentifier :: "ProxyCircuit \<Rightarrow> string" where
  "getIdentifier c =
     (let nm = (if truthy_str (cname c) then ''('' @ the (cname c) @ '') '' else [])
      in nm @ getProxyIDString c)"

definition isHealthy :: "ProxyCircuit \<Rightarrow> bool" where
  "isHealthy c = (health c > 20)"

definition markInvalid :: "ProxyCircuit \<Rightarrow> ProxyCircuit" where
  "markInvalid c = c\<lparr> valid := False \<rparr>"

definition setPollingClient :: "ProxyCircuit \<Rightarrow> nat \<Rightarrow> ProxyCircuit" where
  "setPollingClient c k = c\<lparr> pollingClient := Some k \<rparr>"

text \<open>A circuit definition with no key at all, and the README's onion-routed circuit.\<close>

definition noDetails :: circuitDetails where
  "noDetails = \<lparr> d_host = None, d_port = None, d_username = None, d_password = None,
     d_type = None, d_poll_wait_interval = None, d_name = None,
     d_addToCyclingCircuitPool = None, d_isLocalTor = None, d_activeExitNodeIP = None,
     d_lastIPPollTime = None, d_healInterval = None, d_healAmountPerInterval = None \<rparr>"

definition torDetails :: circuitDetails where
  "torDetails = noDetails\<lparr> d_isLocalTor := Some True, d_port := Some 9050,
     d_host := Some ''3.3.3.3'' \<rparr>"

section \<open>ProxyRateClient and ProxyRateManager: the state\<close>

text \<open>
  Circuits and clients are objects compared by identity (\<open>indexOf\<close>, \<open>==\<close>) and mutated
  through every reference to them, so the state holds them in two stores indexed by
  allocation number, and the collections hold the numbers.
\<close>

record ProxyRateClient =
  clientId :: string
  circuit :: "nat option"               \<comment> \<open>\<open>this.circuit\<close>; \<open>_getRandomCircuit\<close> can return undefined\<close>
  isPollingClient :: bool

record ProxyRateManager =
  reqStats :: "(string \<times> (string \<times> int list) list) list"
  pendingCallbacks :: "nat list"        \<comment> \<open>promise resolve functions, by waiter number\<close>
  isCurrentlyChanging :: bool
  isCurrentlyRestarting :: bool
  clients :: "nat list"
  blacklistedIPs :: "(string \<times> bool) list"
  actionLimits :: "(string \<times> int) list"
  actionResetTimes :: "(string \<times> int) list"
  circuits :: "nat list"
  namedCircuits :: "(string \<times> nat) list"
  circuitObj :: "nat \<Rightarrow> ProxyCircuit"    \<comment> \<open>the circuit objects\<close>
  clientObj :: "nat \<Rightarrow> ProxyRateClient"  \<comment> \<open>the client objects\<close>
  nextCircuit :: nat                    \<comment> \<open>the number the next \<open>new ProxyCircuit\<close> gets\<close>
  nextClient :: nat                     \<comment> \<open>the number the next \<open>new ProxyRateClient\<close> gets\<close>
  nextTick :: "(nat \<times> bool) list"        \<comment> \<open>\<open>process.nextTick\<close> queue: waiter and the value it gets\<close>
  pollers :: "nat list"                 \<comment> \<open>circuits whose \<open>_startPoller\<close> loop was launched\<close>

definition MAX_CHANGE_TRIES :: nat where
  "MAX_CHANGE_TRIES = 7"

definition blankClient :: ProxyRateClient where
  "blankClient = \<lparr> clientId = [], circuit = None, isPollingClient = False \<rparr>"

text \<open>
  The manager after its constructor and \<open>initWithCircuits([])\<close>, with a given blacklist
  and no cache file.
\<close>

definition newManager :: "(string \<times> bool) list \<Rightarrow> ProxyRateManager" where
  "newManager bl = \<lparr> reqStats = [], pendingCallbacks = [], isCurrentlyChanging = False,
     isCurrentlyRestarting = False, clients = [], blacklistedIPs = bl, actionLimits = [],
     actionResetTimes = [], circuits = [], namedCircuits = [],
     circuitObj = (\<lambda>_. blankCircuit), clientObj = (\<lambda>_. blankClient),
     nextCircuit = 0, nextClient = 0, nextTick = [], pollers = [] \<rparr>"

definition defaultBlacklist :: "(string \<times> bool) list" where
  "defaultBlacklist = [(''163.172.67.180'', True)]"

section \<open>The rate store\<close>

definition addRateLimitActionKey :: "ProxyRateManager \<Rightarrow> string \<Rightarrow> int \<Rightarrow> int \<Rightarrow> ProxyRateManager" where
  "addRateLimitActionKey s key limit timeForRateReset =
     s\<lparr> actionLimits := jsSet key limit (actionLimits s),
        actionResetTimes := jsSet key timeForRateReset (actionResetTimes s) \<rparr>"

text \<open>
  \<open>_initializeIPDataIfNotInitialized\<close>: the test \<open>!this.reqStats[ip]\<close> holds only when the
  read yields undefined; an own entry and an inherited member are both truthy.
\<close>

definition initializeIPDataIfNotInitialized :: "ProxyRateManager \<Rightarrow> string option \<Rightarrow> ProxyRateManager" where
  "initializeIPDataIfNotInitialized s ip =
     (case jsGet (reqStats s) (prop_key ip) of
        Missing \<Rightarrow>
          (let actionArrays = map (\<lambda>actionName. (actionName, [])) (map fst (actionLimits s))
           in s\<lparr> reqStats := AList.update (prop_key ip) actionArrays (reqStats s) \<rparr>)
      | Own _ \<Rightarrow> s
      | Inherited _ \<Rightarrow> s)"

text \<open>
  \<open>_preenOldRequestsForIP\<close>: the loop over the keys of \<open>actionResetTimes\<close>. Reading
  \<open>this.reqStats[ip][actionName].length\<close> throws a TypeError when \<open>this.reqStats[ip]\<close> or
  \<open>this.reqStats[ip][actionName]\<close> is undefined; the series preened before the throw
  stay preened. When the entry does not own the action name and inherits a member of
  that name, the loop condition reads the \<open>length\<close> of a function, or of
  \<open>Object.prototype\<close>, and its element 0, which is undefined: the comparison with
  \<open>now - undefined\<close> is false, nothing is shifted and nothing is thrown. When
  \<open>this.reqStats[ip]\<close> itself is an inherited member, the read is one of a property of a
  built-in. The clock is read once per modelled operation (\<open>now\<close>).
\<close>

fun preenActions :: "int \<Rightarrow> string \<Rightarrow> (string \<times> int) list \<Rightarrow> ProxyRateManager \<Rightarrow> unit outcome \<times> ProxyRateManager" where
  "preenActions now ip [] s = (Returns (), s)"
| "preenActions now ip ((actionName, TIME_FOR_RATE_RESET) # rest) s =
     (case jsGet (reqStats s) ip of
        Missing \<Rightarrow> (Throws TypeError, s)
      | Inherited _ \<Rightarrow> (Unmodelled, s)
      | Own ipStats \<Rightarrow>
          (case jsGet ipStats actionName of
             Missing \<Rightarrow> (Throws TypeError, s)
           | Inherited _ \<Rightarrow> preenActions now ip rest s
           | Own series \<Rightarrow>
               preenActions now ip rest
                 (s\<lparr> reqStats := AList.update ip
                       (AList.update actionName
                          (dropWhile (\<lambda>t. now - t > TIME_FOR_RATE_RESET) series) ipStats)
                       (reqStats s) \<rparr>)))"

definition preenOldRequestsForIP :: "ProxyRateManager \<Rightarrow> string \<Rightarrow> int \<Rightarrow> unit outcome \<times> ProxyRateManager" where
  "preenOldRequestsForIP s ip now = preenActions now ip (actionResetTimes s) s"

text \<open>
  The truthiness of \<open>this.blacklistedIPs[ip]\<close>: the own value, true for an inherited
  member, false for undefined.
\<close>

definition isBlacklisted :: "ProxyRateManager \<Rightarrow> string \<Rightarrow> bool" where
  "isBlacklisted s ip =
     (case jsGet (blacklistedIPs s) ip of
        Own b \<Rightarrow> b
      | Inherited _ \<Rightarrow> True
      | Missing \<Rightarrow> False)"

text \<open>
  The last line of \<open>_isIPAvailableForRequests\<close>, \<open>length < this.actionLimits[actionName]\<close>,
  for a length that is a number or undefined: the comparison is false when either side
  is not a number (an undefined length, a limit that is undefined or an inherited
  member).
\<close>

definition belowLimit :: "ProxyRateManager \<Rightarrow> string \<Rightarrow> nat option \<Rightarrow> bool" where
  "belowLimit s actionName len =
     (case len of
        None \<Rightarrow> False
      | Some n \<Rightarrow> (case map_of (actionLimits s) actionName of
                     None \<Rightarrow> False
                   | Some limit \<Rightarrow> int n < limit))"

text \<open>
  \<open>_isIPAvailableForRequests(ip, actionName)\<close>. The first test, \<open>!this.reqStats[ip]\<close>, holds
  only for a key that the store neither owns nor inherits.
\<close>

definition isIPAvailableForRequests :: "ProxyRateManager \<Rightarrow> string option \<Rightarrow> string option \<Rightarrow> int \<Rightarrow> bool outcome \<times> ProxyRateManager" where
  "isIPAvailableForRequests s ip actionName now =
     (if jsGet (reqStats s) (prop_key ip) = Missing then (Returns True, s)
      else if isBlacklisted s (prop_key ip) then (Returns False, s)
      else (case actionName of
              None \<Rightarrow> (Throws MissingActionName, s)
            | Some a \<Rightarrow>
                (case preenOldRequestsForIP s (prop_key ip) now of
                   (Returns _, s1) \<Rightarrow>
                     (case jsGet (reqStats s1) (prop_key ip) of
                        Missing \<Rightarrow> (Throws TypeError, s1)
                      | Inherited _ \<Rightarrow> (Unmodelled, s1)
                      | Own ipStats \<Rightarrow>
                          (case jsGet ipStats a of
                             Missing \<Rightarrow> (Throws TypeError, s1)
                           | Inherited len \<Rightarrow> (Returns (belowLimit s1 a len), s1)
                           | Own series \<Rightarrow>
                               (Returns (belowLimit s1 a (Some (length series))), s1)))
                 | (Throws e, s1) \<Rightarrow> (Throws e, s1)
                 | (Pending, s1) \<Rightarrow> (Pending, s1)
                 | (Unmodelled, s1) \<Rightarrow> (Unmodelled, s1))))"

definition shouldPreenIPData :: "ProxyRateManager \<Rightarrow> bool" where
  "shouldPreenIPData s = (length (reqStats s) > 500)"

text \<open>
  \<open>freeOldIPData\<close>: the loop over the keys of \<open>reqStats\<close>. After the preen, the filter
  over \<open>this.circuits\<close> calls \<open>c.getCurrentIP()\<close>, a method that \<open>ProxyRateClient\<close> has and
  \<open>ProxyCircuit\<close> has not: with a circuit in the pool the call throws a TypeError.
  \<open>numRelevantPoints\<close> is the array of the action names with a non-empty series, and
  \<open>numRelevantPoints == 0\<close> compares it loosely with a number: true for the empty array,
  false for two names or more (the joined string has a comma), and for a single name
  true when the name converts to the number 0. That conversion of the language is the
  parameter \<open>toNumberIsZero\<close>.
\<close>

definition looseEqZero :: "(string \<Rightarrow> bool) \<Rightarrow> string list \<Rightarrow> bool" where
  "looseEqZero toNumberIsZero names =
     (case names of [] \<Rightarrow> True | [n] \<Rightarrow> toNumberIsZero n | _ \<Rightarrow> False)"

fun freeLoop :: "(string \<Rightarrow> bool) \<Rightarrow> int \<Rightarrow> string list \<Rightarrow> ProxyRateManager \<Rightarrow> unit outcome \<times> ProxyRateManager" where
  "freeLoop z now [] s = (Returns (), s)"
| "freeLoop z now (ip # ips) s =
     (case preenOldRequestsForIP s ip now of
        (Returns _, s1) \<Rightarrow>
          (if circuits s1 \<noteq> [] then (Throws TypeError, s1)
           else (case map_of (reqStats s1) ip of
                   None \<Rightarrow> (Throws TypeError, s1)
                 | Some ipStats \<Rightarrow>
                     (let numRelevantPoints =
                            map fst (filter (\<lambda>(actionName, series). length series > 0) ipStats)
                      in if looseEqZero z numRelevantPoints
                         then freeLoop z now ips (s1\<lparr> reqStats := AList.delete ip (reqStats s1) \<rparr>)
                         else freeLoop z now ips s1)))
      | (Throws e, s1) \<Rightarrow> (Throws e, s1)
      | (Pending, s1) \<Rightarrow> (Pending, s1)
      | (Unmodelled, s1) \<Rightarrow> (Unmodelled, s1))"

definition freeOldIPData :: "(string \<Rightarrow> bool) \<Rightarrow> ProxyRateManager \<Rightarrow> int \<Rightarrow> unit outcome \<times> ProxyRateManager" where
  "freeOldIPData z s now = freeLoop z now (map fst (reqStats s)) s"

section \<open>The IP-change protocol\<close>

text \<open>
  The release loop of \<open>_onChangedIP\<close>: each function shifted from the front of
  \<open>pendingCallbacks\<close> is scheduled with \<open>process.nextTick\<close> to be called with \<open>true\<close>. Only
  promise resolve functions are ever pushed, so the \<open>typeof\<close> test holds for each.
\<close>

fun fireCallbacks :: "nat list \<Rightarrow> (nat \<times> bool) list \<Rightarrow> (nat \<times> bool) list" where
  "fireCallbacks [] q = q"
| "fireCallbacks (fn # rest) q = fireCallbacks rest (q @ [(fn, True)])"

definition setExitIP :: "ProxyRateManager \<Rightarrow> nat \<Rightarrow> string option \<Rightarrow> int \<Rightarrow> ProxyRateManager" where
  "setExitIP s c newIp now =
     s\<lparr> circuitObj := (circuitObj s)(c := (circuitObj s c)\<lparr> activeExitNodeIP := newIp,
                                                          lastIPPollTime := now \<rparr>) \<rparr>"

text \<open>
  \<open>_onChangedIP(circuit, newIp)\<close>, with \<open>c\<close> the circuit object, \<open>now\<close> the clock and \<open>z\<close>
  the conversion that \<open>freeOldIPData\<close> needs. The two follow counters that the source
  resets here are read nowhere and are left out.
\<close>

definition onChangedIP :: "(string \<Rightarrow> bool) \<Rightarrow> ProxyRateManager \<Rightarrow> nat \<Rightarrow> string option \<Rightarrow> int \<Rightarrow> unit outcome \<times> ProxyRateManager" where
  "onChangedIP z s c newIp now =
     (if \<not> truthy_str newIp then (Throws MissingIP, s)
      else
        (let s1 = initializeIPDataIfNotInitialized s newIp;
             s2 = s1\<lparr> isCurrentlyChanging := False \<rparr>;
             s3 = setExitIP s2 c newIp now
         in case (if shouldPreenIPData s3 then freeOldIPData z s3 now else (Returns (), s3)) of
              (Returns _, s4) \<Rightarrow>
                (Returns (), s4\<lparr> nextTick := fireCallbacks (pendingCallbacks s4) (nextTick s4),
                                pendingCallbacks := [] \<rparr>)
            | (Throws e, s4) \<Rightarrow> (Throws e, s4)
            | (Pending, s4) \<Rightarrow> (Pending, s4)
            | (Unmodelled, s4) \<Rightarrow> (Unmodelled, s4)))"

text \<open>
  \<open>_onUnrequestedIPChange\<close>. For an action, \<open>i\<close> counts the points from the end of the old
  IP's series that are truthy and newer than \<open>lastIPPollTime\<close>; then
  \<open>actionStats.slice(0, -i)\<close> is taken: the elements before the last \<open>i\<close>, and the empty
  array when \<open>i\<close> is 0 (the end index \<open>-0\<close> is 0). When an entry does not own the action
  name and inherits a member of that name, the member has no element at any index, so
  \<open>i\<close> is 0, and it has neither \<open>slice\<close> nor \<open>concat\<close>: the call throws a TypeError.
\<close>

definition countAmbiguous :: "int list \<Rightarrow> int \<Rightarrow> nat" where
  "countAmbiguous actionStats lastPoll =
     length (takeWhile (\<lambda>point. point \<noteq> 0 \<and> point > lastPoll) (rev actionStats))"

definition sliceZeroToMinus :: "'a list \<Rightarrow> nat \<Rightarrow> 'a list" where
  "sliceZeroToMinus xs i = (if i = 0 then [] else take (length xs - i) xs)"

fun copyLoop :: "string list \<Rightarrow> string \<Rightarrow> string \<Rightarrow> int \<Rightarrow> ProxyRateManager \<Rightarrow> unit outcome \<times> ProxyRateManager" where
  "copyLoop [] oldIp newIp lastPoll s = (Returns (), s)"
| "copyLoop (actionName # rest) oldIp newIp lastPoll s =
     (case jsGet (reqStats s) oldIp of
        Missing \<Rightarrow> (Throws TypeError, s)
      | Inherited _ \<Rightarrow> (Unmodelled, s)
      | Own ipStats \<Rightarrow>
          (case jsGet ipStats actionName of
             Missing \<Rightarrow> (Throws TypeError, s)
           | Inherited _ \<Rightarrow> (Throws TypeError, s)
           | Own actionStats \<Rightarrow>
               (let i = countAmbiguous actionStats lastPoll;
                    ambiguousPoints = sliceZeroToMinus actionStats i
                in case jsGet (reqStats s) newIp of
                     Missing \<Rightarrow> (Throws TypeError, s)
                   | Inherited _ \<Rightarrow> (Unmodelled, s)
                   | Own newStats \<Rightarrow>
                       (case jsGet newStats actionName of
                          Missing \<Rightarrow> (Throws TypeError, s)
                        | Inherited _ \<Rightarrow> (Throws TypeError, s)
                        | Own newSeries \<Rightarrow>
                            copyLoop rest oldIp newIp lastPoll
                              (s\<lparr> reqStats := AList.update newIp
                                    (AList.update actionName (newSeries @ ambiguousPoints) newStats)
                                    (reqStats s) \<rparr>)))))"

text \<open>\<open>writeFails\<close>: whether \<open>fs.writeFile\<close> reports an error in \<open>_writeOutCache\<close>.\<close>

definition onUnrequestedIPChange :: "(string \<Rightarrow> bool) \<Rightarrow> ProxyRateManager \<Rightarrow> nat \<Rightarrow> string option \<Rightarrow> bool \<Rightarrow> int \<Rightarrow> unit outcome \<times> ProxyRateManager" where
  "onUnrequestedIPChange z s c newIp writeFails now =
     (let s1 = s\<lparr> isCurrentlyChanging := True \<rparr>;
          s2 = initializeIPDataIfNotInitialized s1 newIp;
          oldIp = activeExitNodeIP (circuitObj s2 c);
          lastPoll = lastIPPollTime (circuitObj s2 c)
      in case copyLoop (map fst (actionLimits s2)) (prop_key oldIp) (prop_key newIp) lastPoll s2 of
           (Returns _, s3) \<Rightarrow>
             (if writeFails then (Throws IOError, s3) else onChangedIP z s3 c newIp now)
         | (Throws e, s3) \<Rightarrow> (Throws e, s3)
         | (Pending, s3) \<Rightarrow> (Pending, s3)
         | (Unmodelled, s3) \<Rightarrow> (Unmodelled, s3))"

section \<open>The circuit pool\<close>

definition hasCircuit :: "ProxyRateManager \<Rightarrow> ProxyCircuit \<Rightarrow> bool" where
  "hasCircuit s c =
     (let id = getIdentifier c
      in length (filter (\<lambda>r. getIdentifier (circuitObj s r) = id) (circuits s)) > 0)"

text \<open>
  The end of \<open>addCircuit\<close>: the polling client is made and set on the circuit, and the
  poller loop is launched without being awaited.
\<close>

definition attachPoller :: "ProxyRateManager \<Rightarrow> nat \<Rightarrow> ProxyRateManager" where
  "attachPoller s c =
     (let k = nextClient s
      in s\<lparr> clientObj := (clientObj s)(k := \<lparr> clientId = ''POLLER'', circuit = Some c,
                                              isPollingClient = True \<rparr>),
            nextClient := Suc k,
            circuitObj := (circuitObj s)(c := setPollingClient (circuitObj s c) k),
            pollers := pollers s @ [c] \<rparr>)"

text \<open>
  \<open>addCircuit\<close>. \<open>torStartFails\<close>: whether \<open>_startTorIfNotStarted\<close> throws; \<open>extIp\<close>: what the
  probe \<open>_getExternalIP\<close> returns.
\<close>

definition addCircuit :: "(string \<Rightarrow> bool) \<Rightarrow> ProxyRateManager \<Rightarrow> circuitDetails \<Rightarrow> bool \<Rightarrow> string option \<Rightarrow> int \<Rightarrow> unit outcome \<times> ProxyRateManager" where
  "addCircuit z s details torStartFails extIp now =
     (let c = nextCircuit s;
          s0 = s\<lparr> circuitObj := (circuitObj s)(c := new_ProxyCircuit details),
                  nextCircuit := Suc c \<rparr>
      in if hasCircuit s0 (circuitObj s0 c) then (Throws DuplicateCircuit, s0)
         else if isLocalTor (circuitObj s0 c) \<and> torStartFails then (Throws IOError, s0)
         else
           (let s1 = (if isLocalTor (circuitObj s0 c)
                      then s0\<lparr> isCurrentlyRestarting := False \<rparr> else s0)
            in case onChangedIP z s1 c extIp now of
                 (Returns _, s2) \<Rightarrow>
                   (if addToCyclingCircuitPool (circuitObj s2 c)
                    then (Returns (), attachPoller (s2\<lparr> circuits := circuits s2 @ [c] \<rparr>) c)
                    else if \<not> truthy_str (cname (circuitObj s2 c))
                    then (Throws UnnamedRigidCircuit, s2)
                    else (Returns (),
                          attachPoller
                            (s2\<lparr> namedCircuits :=
                                   jsSet (prop_key (cname (circuitObj s2 c))) c
                                     (namedCircuits s2) \<rparr>) c))
               | (Throws e, s2) \<Rightarrow> (Throws e, s2)
               | (Pending, s2) \<Rightarrow> (Pending, s2)
               | (Unmodelled, s2) \<Rightarrow> (Unmodelled, s2)))"

definition areAllCircuitsUnhealthy :: "ProxyRateManager \<Rightarrow> bool" where
  "areAllCircuitsUnhealthy s =
     (length (filter (\<lambda>r. isHealthy (circuitObj s r)) (circuits s)) = 0)"

text \<open>
  The \<open>do ... while\<close> loop of \<open>_getRandomCircuit\<close>. Each element of \<open>draws\<close> stands for one
  \<open>Math.floor(Math.random() * this.circuits.length)\<close>, reduced modulo the length so that
  every list is a possible run. \<open>continue\<close> inside \<open>do ... while\<close> jumps to the loop
  condition, which is \<open>again\<close> below. The hook \<open>onAllCircuitsUnhealthy\<close> is the default one.
\<close>

fun randomLoop :: "ProxyRateManager \<Rightarrow> nat option \<Rightarrow> bool \<Rightarrow> nat list \<Rightarrow> nat option outcome \<times> nat list" where
  "randomLoop s circuitToOmit omitUnhealthyCircuits [] = (Pending, [])"
| "randomLoop s circuitToOmit omitUnhealthyCircuits (d # ds) =
     (let randomIndex = d mod length (circuits s);
          randomCircuit = circuits s ! randomIndex;
          again = (case circuitToOmit of
                     None \<Rightarrow> False
                   | Some om \<Rightarrow> getIdentifier (circuitObj s om)
                                = getIdentifier (circuitObj s randomCircuit))
      in if omitUnhealthyCircuits \<and> \<not> isHealthy (circuitObj s randomCircuit)
         then (if areAllCircuitsUnhealthy s then (Throws AllCircuitsUnhealthy, ds)
               else if (case circuitToOmit of
                          None \<Rightarrow> False
                        | Some om \<Rightarrow> isHealthy (circuitObj s om))
               then (Returns circuitToOmit, ds)
               else if again then randomLoop s circuitToOmit omitUnhealthyCircuits ds
               else (Returns (Some randomCircuit), ds))
         else if again then randomLoop s circuitToOmit omitUnhealthyCircuits ds
         else (Returns (Some randomCircuit), ds))"

definition getRandomCircuit :: "ProxyRateManager \<Rightarrow> nat option \<Rightarrow> bool \<Rightarrow> nat list \<Rightarrow> nat option outcome \<times> nat list" where
  "getRandomCircuit s circuitToOmit omitUnhealthyCircuits draws =
     (if length (circuits s) \<le> 1
      then (Returns (case circuits s of [] \<Rightarrow> None | c # _ \<Rightarrow> Some c), draws)
      else randomLoop s circuitToOmit omitUnhealthyCircuits draws)"

definition client_changeToRandomCircuit :: "ProxyRateManager \<Rightarrow> nat \<Rightarrow> nat list \<Rightarrow> unit outcome \<times> ProxyRateManager \<times> nat list" where
  "client_changeToRandomCircuit s k draws =
     (if isPollingClient (clientObj s k) then (Returns (), s, draws)
      else (case getRandomCircuit s (circuit (clientObj s k)) True draws of
              (Returns r, draws1) \<Rightarrow>
                (Returns (),
                 s\<lparr> clientObj := (clientObj s)(k := (clientObj s k)\<lparr> circuit := r \<rparr>) \<rparr>,
                 draws1)
            | (Throws e, draws1) \<Rightarrow> (Throws e, s, draws1)
            | (Pending, draws1) \<Rightarrow> (Pending, s, draws1)
            | (Unmodelled, draws1) \<Rightarrow> (Unmodelled, s, draws1)))"

text \<open>The \<open>forEach\<close> of \<open>_removeCircuit\<close> over \<open>this.clients\<close>.\<close>

fun kickClients :: "nat list \<Rightarrow> nat \<Rightarrow> ProxyRateManager \<Rightarrow> nat list \<Rightarrow> unit outcome \<times> ProxyRateManager \<times> nat list" where
  "kickClients [] c s draws = (Returns (), s, draws)"
| "kickClients (k # ks) c s draws =
     (if circuit (clientObj s k) = Some c
      then (case client_changeToRandomCircuit s k draws of
              (Returns _, s1, draws1) \<Rightarrow> kickClients ks c s1 draws1
            | (Throws e, s1, draws1) \<Rightarrow> (Throws e, s1, draws1)
            | (Pending, s1, draws1) \<Rightarrow> (Pending, s1, draws1)
            | (Unmodelled, s1, draws1) \<Rightarrow> (Unmodelled, s1, draws1))
      else kickClients ks c s draws)"

text \<open>
  \<open>_removeCircuit\<close>, branch by branch as the source has them: the branch taken when
  \<open>addToCyclingCircuitPool\<close> is true deletes from \<open>namedCircuits\<close>, the other one looks the
  circuit up in \<open>this.circuits\<close>. \<open>killFails\<close>: whether \<open>_killAllTorProcesses\<close> throws.
\<close>

definition removeCircuit :: "ProxyRateManager \<Rightarrow> nat \<Rightarrow> nat list \<Rightarrow> bool \<Rightarrow> nat outcome \<times> ProxyRateManager \<times> nat list" where
  "removeCircuit s c draws killFails =
     (let s1 = s\<lparr> circuitObj := (circuitObj s)(c := markInvalid (circuitObj s c)) \<rparr>
      in if \<not> addToCyclingCircuitPool (circuitObj s1 c) \<and> \<not> List.member (circuits s1) c
         then (Throws CircuitNotInPool, s1, draws)
         else
           (let s2 = (if addToCyclingCircuitPool (circuitObj s1 c)
                      then s1\<lparr> namedCircuits :=
                                AList.delete (prop_key (cname (circuitObj s1 c))) (namedCircuits s1) \<rparr>
                      else s1\<lparr> circuits := remove1 c (circuits s1) \<rparr>)
            in case kickClients (clients s2) c s2 draws of
                 (Returns _, s3, draws3) \<Rightarrow>
                   (if isLocalTor (circuitObj s3 c)
                       \<and> length (filter (\<lambda>r. isLocalTor (circuitObj s3 r)) (circuits s3)) = 0
                       \<and> killFails
                    then (Throws IOError, s3, draws3)
                    else (Returns c, s3, draws3))
               | (Throws e, s3, draws3) \<Rightarrow> (Throws e, s3, draws3)
               | (Pending, s3, draws3) \<Rightarrow> (Pending, s3, draws3)
               | (Unmodelled, s3, draws3) \<Rightarrow> (Unmodelled, s3, draws3)))"

section \<open>Requested IP changes\<close>

text \<open>What one call of \<open>_changeExitNode\<close> does: it returns, dies for want of a tor process, or throws.\<close>

datatype rotate = RotateOk | RotateNoTor | RotateError

text \<open>
  The retry loop of \<open>_definitivelyChangeToAvailableIP\<close>. Each element of \<open>io\<close> is the
  outcome of one \<open>_changeExitNode\<close> with the answer of the probe that follows it.
\<close>

fun changeLoop :: "(string \<Rightarrow> bool) \<Rightarrow> ProxyRateManager \<Rightarrow> nat \<Rightarrow> string option \<Rightarrow> nat \<Rightarrow> (rotate \<times> string option) list \<Rightarrow> int \<Rightarrow> jsval outcome \<times> ProxyRateManager" where
  "changeLoop z s c actualExitIP numTries io now =
     (if numTries < MAX_CHANGE_TRIES
      then (case io of
              [] \<Rightarrow> (Pending, s)
            | (rot, extIp) # rest \<Rightarrow>
                (case rot of
                   RotateNoTor \<Rightarrow> (Throws TorNotFound, s)
                 | RotateError \<Rightarrow> (Throws IOError, s)
                 | RotateOk \<Rightarrow>
                     (if extIp = actualExitIP
                      then changeLoop z s c actualExitIP (Suc numTries) rest now
                      else (case onChangedIP z s c extIp now of
                              (Returns _, s1) \<Rightarrow> (Returns JUndefined, s1)
                            | (Throws e, s1) \<Rightarrow> (Throws e, s1)
                            | (Pending, s1) \<Rightarrow> (Pending, s1)
                            | (Unmodelled, s1) \<Rightarrow> (Unmodelled, s1)))))
      else (Throws IPChangeExhausted, s))"

text \<open>
  \<open>_definitivelyChangeToAvailableIP(circuit, activeExitNodeIP=null)\<close>. The body reads
  \<open>actualExitIP\<close>, which is no parameter, no local and no binding of the module: the
  identifier resolves in the global object, given here as \<open>globals\<close> (a property maps to
  its value, a string or null). Without such a property the read throws a
  ReferenceError. \<open>firstProbe\<close> is the answer of the probe made when the value is falsy.
\<close>

definition definitivelyChangeToAvailableIP :: "(string \<Rightarrow> bool) \<Rightarrow> ProxyRateManager \<Rightarrow> nat \<Rightarrow> (string \<Rightarrow> string option option) \<Rightarrow> string option \<Rightarrow> (rotate \<times> string option) list \<Rightarrow> int \<Rightarrow> jsval outcome \<times> ProxyRateManager" where
  "definitivelyChangeToAvailableIP z s c globals firstProbe io now =
     (let s1 = s\<lparr> isCurrentlyChanging := True \<rparr>
      in case globals ''actualExitIP'' of
           None \<Rightarrow> (Throws ReferenceError, s1)
         | Some v \<Rightarrow>
             changeLoop z s1 c (if \<not> truthy_str v then firstProbe else v) 0 io now)"

text \<open>
  \<open>forceIPChangeImmediately(circuit)\<close> of the manager. Its first statement builds a log
  line from \<open>circuit.getIdentifier()\<close>: a TypeError when \<open>circuit\<close> is undefined. Under the
  gate the caller's resolve function \<open>waiter\<close> is queued and the call stays pending.
\<close>

definition forceIPChangeImmediately :: "(string \<Rightarrow> bool) \<Rightarrow> ProxyRateManager \<Rightarrow> nat option \<Rightarrow> (string \<Rightarrow> string option option) \<Rightarrow> nat \<Rightarrow> string option \<Rightarrow> (rotate \<times> string option) list \<Rightarrow> int \<Rightarrow> jsval outcome \<times> ProxyRateManager" where
  "forceIPChangeImmediately z s circ globals waiter firstProbe io now =
     (case circ of
        None \<Rightarrow> (Throws TypeError, s)
      | Some c \<Rightarrow>
          (if isCurrentlyChanging s
           then (Pending, s\<lparr> pendingCallbacks := pendingCallbacks s @ [waiter] \<rparr>)
           else definitivelyChangeToAvailableIP z s c globals firstProbe io now))"

section \<open>ProxyRateClient\<close>

text \<open>
  \<open>forceIPChangeImmediately()\<close> of the client. For an onion-routed circuit it calls the
  manager's method with no argument. The two other branches return undefined.
\<close>

definition client_forceIPChangeImmediately :: "(string \<Rightarrow> bool) \<Rightarrow> ProxyRateManager \<Rightarrow> nat \<Rightarrow> (string \<Rightarrow> string option option) \<Rightarrow> nat \<Rightarrow> string option \<Rightarrow> (rotate \<times> string option) list \<Rightarrow> nat list \<Rightarrow> int \<Rightarrow> jsval outcome \<times> ProxyRateManager \<times> nat list" where
  "client_forceIPChangeImmediately z s k globals waiter firstProbe io draws now =
     (case circuit (clientObj s k) of
        None \<Rightarrow> (Throws TypeError, s, draws)
      | Some c \<Rightarrow>
          (if isLocalTor (circuitObj s c)
           then (case forceIPChangeImmediately z s None globals waiter firstProbe io now of
                   (out, s1) \<Rightarrow> (out, s1, draws))
           else if \<not> addToCyclingCircuitPool (circuitObj s c)
           then (Returns JUndefined, s, draws)
           else (case client_changeToRandomCircuit s k draws of
                   (Returns _, s1, draws1) \<Rightarrow> (Returns JUndefined, s1, draws1)
                 | (Throws e, s1, draws1) \<Rightarrow> (Throws e, s1, draws1)
                 | (Pending, s1, draws1) \<Rightarrow> (Pending, s1, draws1)
                 | (Unmodelled, s1, draws1) \<Rightarrow> (Unmodelled, s1, draws1))))"

definition client_changeIPIfNecessary :: "(string \<Rightarrow> bool) \<Rightarrow> ProxyRateManager \<Rightarrow> nat \<Rightarrow> string option \<Rightarrow> (string \<Rightarrow> string option option) \<Rightarrow> nat \<Rightarrow> string option \<Rightarrow> (rotate \<times> string option) list \<Rightarrow> nat list \<Rightarrow> int \<Rightarrow> jsval outcome \<times> ProxyRateManager \<times> nat list" where
  "client_changeIPIfNecessary z s k actionName globals waiter firstProbe io draws now =
     (case circuit (clientObj s k) of
        None \<Rightarrow> (Throws TypeError, s, draws)
      | Some c \<Rightarrow>
          (if \<not> addToCyclingCircuitPool (circuitObj s c)
           then (Throws RigidCircuitMisuse, s, draws)
           else (case isIPAvailableForRequests s (activeExitNodeIP (circuitObj s c)) actionName now of
                   (Returns available, s1) \<Rightarrow>
                     (if available then (Returns (JBool False), s1, draws)
                      else client_forceIPChangeImmediately z s1 k globals waiter firstProbe io draws now)
                 | (Throws e, s1) \<Rightarrow> (Throws e, s1, draws)
                 | (Pending, s1) \<Rightarrow> (Pending, s1, draws)
                 | (Unmodelled, s1) \<Rightarrow> (Unmodelled, s1, draws))))"

section \<open>Notions used to state the properties\<close>

text \<open>The state with its rate store blanked: what an operation on the store leaves alone.\<close>

definition others :: "ProxyRateManager \<Rightarrow> ProxyRateManager" where
  "others s = s\<lparr> reqStats := [] \<rparr>"


section \<open>Scenarios\<close>

text \<open>
  Concrete states for the properties below: one action \<open>api\<close> with limit 2 in a window
  of 60 s, the default blacklist, a cycling pool of two proxies (circuits 0 and 1), a
  named proxy outside the pool (circuit 2) and one client bound to circuit 0. The
  polling clients, which no operation below reads, are left out. No action name of the
  scenarios converts to the number 0, and the global object has no property
  \<open>actualExitIP\<close>.
\<close>

definition noZero :: "string \<Rightarrow> bool" where
  "noZero n = False"

definition noGlobals :: "string \<Rightarrow> string option option" where
  "noGlobals x = None"

definition registered :: ProxyRateManager where
  "registered = addRateLimitActionKey (newManager defaultBlacklist) ''api'' 2 60000"

definition poolCircuit :: "string \<Rightarrow> string \<Rightarrow> int \<Rightarrow> ProxyCircuit" where
  "poolCircuit h ip hl =
     (new_ProxyCircuit (noDetails\<lparr> d_host := Some h, d_port := Some 7777 \<rparr>))
       \<lparr> activeExitNodeIP := Some ip, lastIPPollTime := 1000, health := hl \<rparr>"

definition namedDetails :: circuitDetails where
  "namedDetails = noDetails\<lparr> d_name := Some ''login_proxy'', d_host := Some ''example.com'',
     d_port := Some 7777, d_addToCyclingCircuitPool := Some False \<rparr>"

definition namedCircuit :: ProxyCircuit where
  "namedCircuit = (new_ProxyCircuit namedDetails)
     \<lparr> activeExitNodeIP := Some ''10.0.0.3'', lastIPPollTime := 1000 \<rparr>"

definition torCircuit :: ProxyCircuit where
  "torCircuit = (new_ProxyCircuit torDetails)
     \<lparr> activeExitNodeIP := Some ''10.0.0.1'', lastIPPollTime := 1000 \<rparr>"

definition pool :: "ProxyCircuit \<Rightarrow> ProxyCircuit \<Rightarrow> int list \<Rightarrow> ProxyRateManager" where
  "pool c0 c1 series0 = registered
     \<lparr> reqStats := [(''10.0.0.1'', [(''api'', series0)]), (''10.0.0.2'', [(''api'', [])]),
                     (''10.0.0.3'', [(''api'', [])])],
       circuits := [0, 1],
       namedCircuits := [(''login_proxy'', 2)],
       circuitObj := (\<lambda>_. blankCircuit)(0 := c0, 1 := c1, 2 := namedCircuit),
       clients := [0],
       clientObj := (\<lambda>_. blankClient)
                      (0 := \<lparr> clientId = ''0'', circuit = Some 0, isPollingClient = False \<rparr>),
       nextCircuit := 3, nextClient := 1 \<rparr>"


text \<open>A change is in flight: two callers wait, and one callback is already scheduled.\<close>

definition waiting :: ProxyRateManager where
  "waiting = (pool (poolCircuit ''1.1.1.1'' ''10.0.0.1'' 100) (poolCircuit ''2.2.2.2'' ''10.0.0.2'' 100) [])
     \<lparr> pendingCallbacks := [7, 8], isCurrentlyChanging := True, nextTick := [(3, True)] \<rparr>"

text \<open>A pool of three: circuits 0 and 1 are unhealthy, circuit 3 is healthy.\<close>

definition threePool :: ProxyRateManager where
  "threePool = (pool (poolCircuit ''1.1.1.1'' ''10.0.0.1'' 10) (poolCircuit ''2.2.2.2'' ''10.0.0.2'' 10) [])
     \<lparr> circuits := [0, 1, 3],
       circuitObj := (\<lambda>_. blankCircuit)
                       (0 := poolCircuit ''1.1.1.1'' ''10.0.0.1'' 10,
                        1 := poolCircuit ''2.2.2.2'' ''10.0.0.2'' 10,
                        2 := namedCircuit,
                        3 := poolCircuit ''4.4.4.4'' ''10.0.0.4'' 100),
       nextCircuit := 4 \<rparr>"

text \<open>
  Five hundred IPs that were used long ago, each with one action at time 1000, as a
  cache file holds them.
\<close>

definition staleKey :: "nat \<Rightarrow> string" where
  "staleKey i = ''172.16.0.'' @ string_of_nat i"

definition staleStore :: "nat \<Rightarrow> (string \<times> (string \<times> int list) list) list" where
  "staleStore n = map (\<lambda>i. (staleKey i, [(''api'', [1000])])) [0..<n]"

text \<open>The manager with the waiting callers, after many IP changes: 503 tracked IPs.\<close>

definition crowded :: ProxyRateManager where
  "crowded = waiting\<lparr> reqStats := reqStats waiting @ staleStore 500 \<rparr>"

text \<open>A manager started from the cache, with the action registered and no circuit yet.\<close>

definition cached :: ProxyRateManager where
  "cached = registered\<lparr> reqStats := staleStore 500 \<rparr>"

section \<open>Properties of ProxyCircuit\<close>

lemma new_ProxyCircuit_poll_wait_interval:
  "poll_wait_interval (new_ProxyCircuit args) = d_poll_wait_interval args"
  by (simp add: new_ProxyCircuit_def assignArgs_def assignDefaults_def orKeep_def Let_def
      split: option.splits)

text \<open>
  C9 (default poll interval). The claim gives a circuit constructed without an explicit
  poll interval 5000 ms when it is onion-routed and 120000 ms otherwise. The constructor
  computes its default before \<open>Object.assign\<close> copies \<open>poll_wait_interval: null\<close> from the
  defaults over it: the onion-routed circuit of the README and a circuit without any
  key both end with the interval unset, neither 5000 nor 120000.
\<close>

theorem C9_poll_interval_unset:
  "poll_wait_interval (new_ProxyCircuit torDetails) = None
   \<and> isLocalTor (new_ProxyCircuit torDetails)
   \<and> poll_wait_interval (new_ProxyCircuit noDetails) = None
   \<and> isLocalTor (new_ProxyCircuit noDetails) = False"
  by (simp add: new_ProxyCircuit_def assignArgs_def assignDefaults_def orKeep_def
      orElse_def torDetails_def noDetails_def Let_def)

section \<open>Reads through the prototype chain\<close>

lemma jsGet_own: "map_of obj k = Some v \<Longrightarrow> jsGet obj k = Own v"
  by (simp add: jsGet_def)




lemmas read_defs = jsGet_def objectPrototype_def isBlacklisted_def belowLimit_def jsSet_def

section \<open>The rate store operations change the rate store only\<close>

lemma preenActions_others: "others (snd (preenActions now ip acts s)) = others s"
  by (induction now ip acts s rule: preenActions.induct)
     (auto simp: others_def split: lookup.splits)

lemma preenActions_outcome:
  "fst (preenActions now ip acts s) = Returns ()
   \<or> fst (preenActions now ip acts s) = Throws TypeError
   \<or> fst (preenActions now ip acts s) = Unmodelled"
  by (induction now ip acts s rule: preenActions.induct) (auto split: lookup.splits)

lemma preen_others: "others (snd (preenOldRequestsForIP s ip now)) = others s"
  by (simp add: preenOldRequestsForIP_def preenActions_others)

lemma others_delete: "others (s\<lparr> reqStats := x \<rparr>) = others s"
  by (simp add: others_def)

lemma freeLoop_others: "others (snd (freeLoop z now ips s)) = others s"
proof (induction ips arbitrary: s)
  case Nil
  show ?case by simp
next
  case (Cons ip ips)
  obtain o1 s1 where p: "preenOldRequestsForIP s ip now = (o1, s1)"
    by (cases "preenOldRequestsForIP s ip now")
  have f1: "others s1 = others s"
    using preen_others [of s ip now] p by simp
  show ?case
    using p f1 Cons.IH [of s1] Cons.IH [of "s1\<lparr> reqStats := AList.delete ip (reqStats s1) \<rparr>"]
    by (simp add: Let_def others_delete split: outcome.splits option.splits)
qed

lemma freeLoop_outcome:
  "fst (freeLoop z now ips s) = Returns ()
   \<or> fst (freeLoop z now ips s) = Throws TypeError
   \<or> fst (freeLoop z now ips s) = Unmodelled"
proof (induction ips arbitrary: s)
  case Nil
  show ?case by simp
next
  case (Cons ip ips)
  obtain o1 s1 where p: "preenOldRequestsForIP s ip now = (o1, s1)"
    by (cases "preenOldRequestsForIP s ip now")
  have f1: "o1 = Returns () \<or> o1 = Throws TypeError \<or> o1 = Unmodelled"
    using preenActions_outcome [of now ip "actionResetTimes s" s] p
    by (simp add: preenOldRequestsForIP_def)
  show ?case
    using p f1 Cons.IH [of s1] Cons.IH [of "s1\<lparr> reqStats := AList.delete ip (reqStats s1) \<rparr>"]
    by (cases "looseEqZero z (map fst (filter (\<lambda>(actionName, series). length series > 0) (the (map_of (reqStats s1) ip))))")
       (auto simp: Let_def split: option.splits)
qed

lemma fireCallbacks_eq: "fireCallbacks fs q = q @ map (\<lambda>w. (w, True)) fs"
  by (induction fs arbitrary: q) simp_all

lemma others_fields:
  "others s' = others s \<Longrightarrow>
     circuitObj s' = circuitObj s \<and> isCurrentlyChanging s' = isCurrentlyChanging s
     \<and> pendingCallbacks s' = pendingCallbacks s \<and> nextTick s' = nextTick s
     \<and> circuits s' = circuits s \<and> namedCircuits s' = namedCircuits s
     \<and> actionLimits s' = actionLimits s \<and> actionResetTimes s' = actionResetTimes s
     \<and> blacklistedIPs s' = blacklistedIPs s \<and> clients s' = clients s
     \<and> clientObj s' = clientObj s \<and> nextCircuit s' = nextCircuit s
     \<and> nextClient s' = nextClient s \<and> pollers s' = pollers s
     \<and> isCurrentlyRestarting s' = isCurrentlyRestarting s"
  by (cases s, cases s') (simp add: others_def)

lemma freeOldIPData_others: "others (snd (freeOldIPData z s now)) = others s"
  by (simp add: freeOldIPData_def freeLoop_others)

section \<open>Completing an IP change: what holds when the call returns\<close>

text \<open>
  When \<open>_onChangedIP\<close> returns, the new IP is the circuit's active exit IP, the poll time
  is stamped with the clock value \<open>now\<close>, the changing gate is false, the waiter queue is
  empty, and the waiters that were queued have been scheduled on the next tick, each
  once, with the value true, in the order of the queue and behind what was already
  scheduled. When the new IP is unset (null or the empty string) the call dies with
  MissingIP and the state is as before.
\<close>

lemma onChangedIP_returns:
  "(onChangedIP z s c newIp now = (Returns (), s') \<longrightarrow>
      activeExitNodeIP (circuitObj s' c) = newIp \<and> truthy_str newIp
      \<and> lastIPPollTime (circuitObj s' c) = now
      \<and> \<not> isCurrentlyChanging s'
      \<and> pendingCallbacks s' = []
      \<and> nextTick s' = nextTick s @ map (\<lambda>w. (w, True)) (pendingCallbacks s))
   \<and> (\<not> truthy_str newIp \<longrightarrow> onChangedIP z s c newIp now = (Throws MissingIP, s))"
proof (intro conjI impI)
  assume "\<not> truthy_str newIp"
  then show "onChangedIP z s c newIp now = (Throws MissingIP, s)"
    by (simp add: onChangedIP_def)
next
  assume r: "onChangedIP z s c newIp now = (Returns (), s')"
  then have t: "truthy_str newIp"
    by (auto simp: onChangedIP_def split: if_splits)
  define s3 where "s3 = setExitIP ((initializeIPDataIfNotInitialized s newIp)\<lparr> isCurrentlyChanging := False \<rparr>) c newIp now"
  define r4 where "r4 = (if shouldPreenIPData s3 then freeOldIPData z s3 now else (Returns (), s3))"
  have o4: "others (snd r4) = others s3"
    by (simp add: r4_def freeOldIPData_others)
  have s3f: "activeExitNodeIP (circuitObj s3 c) = newIp \<and> lastIPPollTime (circuitObj s3 c) = now
      \<and> \<not> isCurrentlyChanging s3 \<and> pendingCallbacks s3 = pendingCallbacks s
      \<and> nextTick s3 = nextTick s"
    by (simp add: s3_def setExitIP_def initializeIPDataIfNotInitialized_def Let_def split: lookup.splits)
  from r t have e: "s' = (snd r4)\<lparr> nextTick := fireCallbacks (pendingCallbacks (snd r4)) (nextTick (snd r4)),
                                pendingCallbacks := [] \<rparr>"
    by (auto simp: onChangedIP_def Let_def r4_def s3_def split: prod.splits outcome.splits if_splits)
  from others_fields [OF o4] s3f e
  show "activeExitNodeIP (circuitObj s' c) = newIp" "truthy_str newIp"
    "lastIPPollTime (circuitObj s' c) = now" "\<not> isCurrentlyChanging s'" "pendingCallbacks s' = []"
    "nextTick s' = nextTick s @ map (\<lambda>w. (w, True)) (pendingCallbacks s)"
    using t by (simp_all add: fireCallbacks_eq)
qed

section \<open>Evaluating the scenarios\<close>

lemma string_of_7777: "string_of_nat 7777 = ''7777''"
  by (simp add: string_of_nat.simps digit_char_def)

lemma string_of_9050: "string_of_nat 9050 = ''9050''"
  by (simp add: string_of_nat.simps digit_char_def)

lemmas ctor_defs = new_ProxyCircuit_def assignArgs_def assignDefaults_def orKeep_def orElse_def
  noDetails_def Let_def

lemma poolCircuit_fields:
  "addToCyclingCircuitPool (poolCircuit h ip hl)"
  "isLocalTor (poolCircuit h ip hl) = False"
  "activeExitNodeIP (poolCircuit h ip hl) = Some ip"
  "lastIPPollTime (poolCircuit h ip hl) = 1000"
  "cname (poolCircuit h ip hl) = None"
  "isHealthy (poolCircuit h ip hl) = (20 < hl)"
  "getIdentifier (poolCircuit h ip hl) = ''socks5h://'' @ h @ '':7777''"
  by (simp_all add: poolCircuit_def ctor_defs isHealthy_def getIdentifier_def
      getProxyIDString_def truthy_str_def string_of_7777)

lemma namedCircuit_fields:
  "addToCyclingCircuitPool namedCircuit = False"
  "isLocalTor namedCircuit = False"
  "activeExitNodeIP namedCircuit = Some ''10.0.0.3''"
  "cname namedCircuit = Some ''login_proxy''"
  "isHealthy namedCircuit"
  "getIdentifier namedCircuit = ''(login_proxy) socks5h://example.com:7777''"
  by (simp_all add: namedCircuit_def namedDetails_def ctor_defs isHealthy_def getIdentifier_def
      getProxyIDString_def truthy_str_def string_of_7777)

lemma torCircuit_fields:
  "addToCyclingCircuitPool torCircuit"
  "isLocalTor torCircuit"
  "activeExitNodeIP torCircuit = Some ''10.0.0.1''"
  "cname torCircuit = None"
  "isHealthy torCircuit"
  "getIdentifier torCircuit = ''socks5h://3.3.3.3:9050''"
  by (simp_all add: torCircuit_def torDetails_def ctor_defs isHealthy_def getIdentifier_def
      getProxyIDString_def truthy_str_def string_of_9050)

lemma pool_fields:
  "reqStats (pool c0 c1 xs) = [(''10.0.0.1'', [(''api'', xs)]), (''10.0.0.2'', [(''api'', [])]),
                     (''10.0.0.3'', [(''api'', [])])]"
  "circuits (pool c0 c1 xs) = [0, 1]"
  "namedCircuits (pool c0 c1 xs) = [(''login_proxy'', 2)]"
  "circuitObj (pool c0 c1 xs) = (\<lambda>_. blankCircuit)(0 := c0, 1 := c1, 2 := namedCircuit)"
  "clients (pool c0 c1 xs) = [0]"
  "clientObj (pool c0 c1 xs) = (\<lambda>_. blankClient)
                      (0 := \<lparr> clientId = ''0'', circuit = Some 0, isPollingClient = False \<rparr>)"
  "actionLimits (pool c0 c1 xs) = [(''api'', 2)]"
  "actionResetTimes (pool c0 c1 xs) = [(''api'', 60000)]"
  "blacklistedIPs (pool c0 c1 xs) = [(''163.172.67.180'', True)]"
  "pendingCallbacks (pool c0 c1 xs) = []"
  "nextTick (pool c0 c1 xs) = []"
  "isCurrentlyChanging (pool c0 c1 xs) = False"
  by (simp_all add: pool_def registered_def addRateLimitActionKey_def newManager_def
      defaultBlacklist_def jsSet_def)

lemmas random_defs = getRandomCircuit_def areAllCircuitsUnhealthy_def Let_def

lemma markInvalid_fields:
  "valid (markInvalid c) = False"
  "getIdentifier (markInvalid c) = getIdentifier c"
  "isHealthy (markInvalid c) = isHealthy c"
  "addToCyclingCircuitPool (markInvalid c) = addToCyclingCircuitPool c"
  "isLocalTor (markInvalid c) = isLocalTor c"
  "cname (markInvalid c) = cname c"
  by (simp_all add: markInvalid_def getIdentifier_def getProxyIDString_def isHealthy_def)

lemma new_named_fields:
  "addToCyclingCircuitPool (new_ProxyCircuit namedDetails) = False"
  "isLocalTor (new_ProxyCircuit namedDetails) = False"
  "cname (new_ProxyCircuit namedDetails) = Some ''login_proxy''"
  "getIdentifier (new_ProxyCircuit namedDetails) = ''(login_proxy) socks5h://example.com:7777''"
  by (simp_all add: namedDetails_def ctor_defs getIdentifier_def
      getProxyIDString_def truthy_str_def string_of_7777)

lemma registered_fields:
  "reqStats registered = []"
  "actionLimits registered = [(''api'', 2)]"
  "actionResetTimes registered = [(''api'', 60000)]"
  "blacklistedIPs registered = [(''163.172.67.180'', True)]"
  "circuits registered = []"
  "namedCircuits registered = []"
  "nextCircuit registered = 0"
  "nextClient registered = 0"
  "pendingCallbacks registered = []"
  "nextTick registered = []"
  by (simp_all add: registered_def addRateLimitActionKey_def newManager_def
      defaultBlacklist_def jsSet_def)

lemma waiting_fields:
  "reqStats waiting = [(''10.0.0.1'', [(''api'', [])]), (''10.0.0.2'', [(''api'', [])]),
                     (''10.0.0.3'', [(''api'', [])])]"
  "circuits waiting = [0, 1]"
  "actionLimits waiting = [(''api'', 2)]"
  "actionResetTimes waiting = [(''api'', 60000)]"
  "pendingCallbacks waiting = [7, 8]"
  "nextTick waiting = [(3, True)]"
  "isCurrentlyChanging waiting"
  by (simp_all add: waiting_def pool_fields)

section \<open>Completing an IP change: when the call returns\<close>

text \<open>
  With fewer than 500 tracked IPs the compaction is not triggered, and the call returns
  for every set IP.
\<close>

lemma length_update_le: "length (AList.update k v al) \<le> Suc (length al)"
  by (induction al) auto

lemma onChangedIP_completes:
  assumes "truthy_str newIp" and "length (reqStats s) < 500"
  shows "fst (onChangedIP z s c newIp now) = Returns ()"
proof -
  have "length (reqStats (initializeIPDataIfNotInitialized s newIp)) \<le> Suc (length (reqStats s))"
    by (simp add: initializeIPDataIfNotInitialized_def Let_def length_update_le split: lookup.splits)
  with assms(2) have "\<not> shouldPreenIPData
      (setExitIP ((initializeIPDataIfNotInitialized s newIp)\<lparr> isCurrentlyChanging := False \<rparr>) c newIp now)"
    by (simp add: shouldPreenIPData_def setExitIP_def)
  with assms(1) show ?thesis
    by (simp add: onChangedIP_def Let_def)
qed

text \<open>
  An instance: two waiters (7 and 8) are queued behind a callback already scheduled and
  three IPs are tracked; the call clears the gate, empties the queue and schedules 7
  then 8 with true. With the IP unset the call dies and the state is untouched.
\<close>

lemma onChangedIP_returns_instance:
  "fst (onChangedIP noZero waiting 0 (Some ''10.0.0.9'') 5000) = Returns ()
   \<and> activeExitNodeIP (circuitObj (snd (onChangedIP noZero waiting 0 (Some ''10.0.0.9'') 5000)) 0)
       = Some ''10.0.0.9''
   \<and> lastIPPollTime (circuitObj (snd (onChangedIP noZero waiting 0 (Some ''10.0.0.9'') 5000)) 0) = 5000
   \<and> isCurrentlyChanging waiting
   \<and> \<not> isCurrentlyChanging (snd (onChangedIP noZero waiting 0 (Some ''10.0.0.9'') 5000))
   \<and> pendingCallbacks (snd (onChangedIP noZero waiting 0 (Some ''10.0.0.9'') 5000)) = []
   \<and> nextTick (snd (onChangedIP noZero waiting 0 (Some ''10.0.0.9'') 5000))
       = [(3, True), (7, True), (8, True)]
   \<and> onChangedIP noZero waiting 0 None 5000 = (Throws MissingIP, waiting)"
proof -
  have r: "fst (onChangedIP noZero waiting 0 (Some ''10.0.0.9'') 5000) = Returns ()"
    by (rule onChangedIP_completes) (simp_all add: truthy_str_def waiting_fields)
  then have e: "onChangedIP noZero waiting 0 (Some ''10.0.0.9'') 5000
      = (Returns (), snd (onChangedIP noZero waiting 0 (Some ''10.0.0.9'') 5000))"
    by (metis prod.collapse)
  show ?thesis
    using r onChangedIP_returns [of noZero waiting 0 "Some ''10.0.0.9''" 5000
        "snd (onChangedIP noZero waiting 0 (Some ''10.0.0.9'') 5000)"]
      onChangedIP_returns [of noZero waiting 0 None 5000]
      e
    by (simp add: truthy_str_def waiting_fields)
qed

section \<open>Completing an IP change with more than 500 tracked IPs\<close>

lemma staleStore_length: "length (staleStore n) = n"
  by (simp add: staleStore_def)

lemma staleStore_other_key: "map_of (staleStore n) (''10.0.0.'' @ d) = None"
  by (simp add: staleStore_def staleKey_def map_of_eq_None_iff image_iff)

lemma update_fresh: "map_of al k = None \<Longrightarrow> AList.update k v al = al @ [(k, v)]"
  by (induction al) (auto split: if_splits)

text \<open>
  C5 (\<open>_onChangedIP\<close>). The claim: every call with the new IP set ends with the IP
  assigned, the poll time stamped, the changing gate false, the waiter queue empty and
  every queued waiter resolved once with true, in order. With 503 tracked IPs and two
  circuits in the pool, the call for the new IP \<open>10.0.0.9\<close> assigns the IP, stamps the
  time and clears the gate, then runs \<open>freeOldIPData\<close>, which calls \<open>getCurrentIP\<close> on a
  circuit: the call throws a TypeError, the waiters 7 and 8 stay queued and nothing is
  scheduled for them.
\<close>

theorem C5_throws_before_the_waiters_are_released:
  "length (reqStats crowded) = 503
   \<and> circuits crowded = [0, 1]
   \<and> pendingCallbacks crowded = [7, 8]
   \<and> nextTick crowded = [(3, True)]
   \<and> fst (onChangedIP noZero crowded 0 (Some ''10.0.0.9'') 5000) = Throws TypeError
   \<and> activeExitNodeIP (circuitObj (snd (onChangedIP noZero crowded 0 (Some ''10.0.0.9'') 5000)) 0)
       = Some ''10.0.0.9''
   \<and> lastIPPollTime (circuitObj (snd (onChangedIP noZero crowded 0 (Some ''10.0.0.9'') 5000)) 0) = 5000
   \<and> isCurrentlyChanging (snd (onChangedIP noZero crowded 0 (Some ''10.0.0.9'') 5000)) = False
   \<and> pendingCallbacks (snd (onChangedIP noZero crowded 0 (Some ''10.0.0.9'') 5000)) = [7, 8]
   \<and> nextTick (snd (onChangedIP noZero crowded 0 (Some ''10.0.0.9'') 5000)) = [(3, True)]"
proof -
  have k: "map_of (staleStore 500) ''10.0.0.9'' = None" "map_of (staleStore 500) ''10.0.0.1'' = None"
    using staleStore_other_key [of 500 "''9''"] staleStore_other_key [of 500 "''1''"] by simp_all
  show ?thesis
    by (simp add: crowded_def waiting_fields staleStore_length onChangedIP_def truthy_str_def
        initializeIPDataIfNotInitialized_def prop_key_def read_defs k update_fresh setExitIP_def
        shouldPreenIPData_def freeOldIPData_def preenOldRequestsForIP_def Let_def)
qed

section \<open>The blacklist\<close>

text \<open>
  What \<open>_isIPAvailableForRequests\<close> answers for a blacklisted IP: the test for a fresh IP
  comes first, so the answer is true when the store neither owns nor inherits the key,
  and false otherwise, whatever the series hold and whatever action is asked for.
\<close>

lemma blacklisted_answer:
  assumes "isBlacklisted s (prop_key ip)"
  shows "isIPAvailableForRequests s ip actionName now
           = (Returns (jsGet (reqStats s) (prop_key ip) = Missing), s)"
  using assms by (simp add: isIPAvailableForRequests_def)

text \<open>
  C2 (the blacklist preempts counting). The claim: for an IP in the blacklist and a
  registered action the answer is false whatever the rate store holds, also when the IP
  was never tracked. The IP \<open>163.172.67.180\<close> is in the default blacklist and \<open>api\<close> is
  registered; with no entry for the IP in the store the answer is true. With an entry,
  even one whose series is empty, the answer is false.
\<close>

theorem C2_fresh_blacklisted_is_available:
  "map_of (blacklistedIPs registered) ''163.172.67.180'' = Some True
   \<and> isBlacklisted registered ''163.172.67.180''
   \<and> map_of (actionLimits registered) ''api'' = Some 2
   \<and> reqStats registered = []
   \<and> fst (isIPAvailableForRequests registered (Some ''163.172.67.180'') (Some ''api'') 2000)
       = Returns True
   \<and> fst (isIPAvailableForRequests
            (registered\<lparr> reqStats := [(''163.172.67.180'', [(''api'', [])])] \<rparr>)
            (Some ''163.172.67.180'') (Some ''api'') 2000) = Returns False"
  by (simp add: isIPAvailableForRequests_def registered_fields prop_key_def read_defs)

section \<open>A blacklisted IP without an entry is reached by the program itself\<close>

lemma digit_char_code: "d < 10 \<Longrightarrow> (of_char (digit_char d) :: nat) = 48 + d"
proof -
  assume "d < 10"
  then have "d = 0 \<or> d = 1 \<or> d = 2 \<or> d = 3 \<or> d = 4 \<or> d = 5 \<or> d = 6 \<or> d = 7 \<or> d = 8 \<or> d = 9"
    by arith
  then show ?thesis
    by (auto simp: digit_char_def)
qed

lemma string_of_nat_decode:
  "foldl (\<lambda>a c. 10 * a + (of_char c - 48)) 0 (string_of_nat n) = n"
proof (induction n rule: string_of_nat.induct)
  case (1 n)
  show ?case
  proof (cases "n < 10")
    case True
    have "string_of_nat n = [digit_char n]"
      using True by (subst string_of_nat.simps) simp
    then show ?thesis
      using True by (simp add: digit_char_code)
  next
    case False
    then have m: "n mod 10 < 10" by simp
    have e: "string_of_nat n = string_of_nat (n div 10) @ [digit_char (n mod 10)]"
      using False by (subst string_of_nat.simps) simp
    have "foldl (\<lambda>a c. 10 * a + (of_char c - 48)) 0 (string_of_nat n)
        = 10 * (n div 10) + n mod 10"
      unfolding e using "1.IH" [OF False] digit_char_code [OF m] by simp
    then show ?thesis by simp
  qed
qed

lemma string_of_nat_inj: "string_of_nat a = string_of_nat b \<Longrightarrow> a = b"
  by (metis string_of_nat_decode)

lemma staleKey_inj: "inj_on staleKey A"
  by (rule inj_onI) (simp add: staleKey_def string_of_nat_inj)

lemma staleStore_keys_distinct: "distinct (map fst (staleStore n))"
  by (simp add: staleStore_def comp_def distinct_map staleKey_inj)

lemma staleStore_blacklisted_key: "map_of (staleStore n) ''163.172.67.180'' = None"
  by (simp add: staleStore_def staleKey_def map_of_eq_None_iff image_iff)

lemma delete_fresh: "map_of al k = None \<Longrightarrow> AList.delete k al = al"
  by (induction al) (auto split: if_splits)

text \<open>
  The compaction over a store in which every entry has the one series \<open>api\<close>, all of
  whose points have left the window, with no circuit in the pool: every entry is
  preened to empty and deleted.
\<close>

lemma freeLoop_forgets:
  assumes "circuits s = []" and "actionResetTimes s = [(''api'', w)]"
    and "reqStats s = map (\<lambda>(k, xs). (k, [(''api'', xs)])) kxs"
    and "list_all (\<lambda>(k, xs). list_all (\<lambda>t. now - t > w) xs) kxs"
    and "distinct (map fst kxs)"
  shows "freeLoop z now (map fst kxs) s = (Returns (), s\<lparr> reqStats := [] \<rparr>)"
  using assms
proof (induction kxs arbitrary: s)
  case Nil
  then show ?case by simp
next
  case (Cons kx kxs)
  obtain k xs where kx: "kx = (k, xs)" by (cases kx)
  let ?rest = "map (\<lambda>(k, xs). (k, [(''api'', xs)])) kxs"
  have stats: "reqStats s = (k, [(''api'', xs)]) # ?rest"
    using Cons.prems(3) kx by simp
  have old: "dropWhile (\<lambda>t. now - t > w) xs = []"
    using Cons.prems(4) kx by (simp add: list_all_iff)
  have fresh: "map_of ?rest k = None"
    using Cons.prems(5) kx by (auto simp: map_of_eq_None_iff image_iff)
  let ?s1 = "s\<lparr> reqStats := (k, [(''api'', [])]) # ?rest \<rparr>"
  have preen: "preenOldRequestsForIP s k now = (Returns (), ?s1)"
    using stats old Cons.prems(2)
    by (simp add: preenOldRequestsForIP_def read_defs)
  let ?s2 = "s\<lparr> reqStats := ?rest \<rparr>"
  have step: "freeLoop z now (map fst (kx # kxs)) s = freeLoop z now (map fst kxs) ?s2"
    using preen Cons.prems(1) fresh kx
    by (simp add: looseEqZero_def delete_fresh)
  have "freeLoop z now (map fst kxs) ?s2 = (Returns (), ?s2\<lparr> reqStats := [] \<rparr>)"
    using Cons.prems by (intro Cons.IH) (simp_all add: kx)
  with step show ?case by simp
qed

lemma cached_fields:
  "reqStats cached = staleStore 500"
  "actionLimits cached = [(''api'', 2)]"
  "actionResetTimes cached = [(''api'', 60000)]"
  "blacklistedIPs cached = [(''163.172.67.180'', True)]"
  "circuits cached = []"
  "namedCircuits cached = []"
  "nextCircuit cached = 0"
  "nextClient cached = 0"
  "pendingCallbacks cached = []"
  "nextTick cached = []"
  by (simp_all add: cached_def registered_fields)

text \<open>
  A manager is started from a cache of 500 stale IPs, and its first circuit is added
  while the probe answers with the blacklisted IP. \<open>_onChangedIP\<close> creates the entry of
  that IP as the 501st, which triggers the compaction; the pool is still empty, so the
  compaction deletes every entry without recent points, the new one included.
\<close>

lemma compaction_of_the_cache:
  assumes "circuits s = []" and "actionResetTimes s = [(''api'', 60000)]"
    and "reqStats s = staleStore 500 @ [(''163.172.67.180'', [(''api'', [])])]"
  shows "freeOldIPData z s 100000 = (Returns (), s\<lparr> reqStats := [] \<rparr>)"
proof -
  let ?kxs = "map (\<lambda>i. (staleKey i, [1000::int])) [0..<500] @ [(''163.172.67.180'', [])]"
  have shape: "reqStats s = map (\<lambda>(k, xs). (k, [(''api'', xs)])) ?kxs"
    using assms(3) by (simp add: staleStore_def comp_def)
  have old: "list_all (\<lambda>(k, xs). list_all (\<lambda>t. (100000::int) - t > 60000) xs) ?kxs"
    by (simp add: list_all_iff)
  have "''163.172.67.180'' \<notin> staleKey ` {0..<500}"
    using staleStore_blacklisted_key [of 500]
    by (simp add: staleStore_def map_of_eq_None_iff image_iff)
  then have dist: "distinct (map fst ?kxs)"
    using staleStore_keys_distinct [of 500] by (simp add: staleStore_def comp_def)
  have keys: "map fst (reqStats s) = map fst ?kxs"
    unfolding shape by (simp add: comp_def case_prod_beta)
  show ?thesis
    unfolding freeOldIPData_def keys
    by (rule freeLoop_forgets [OF assms(1) assms(2) shape old dist])
qed

text \<open>
  After that \<open>addCircuit\<close>, circuit 0 is in the pool and presents the blacklisted IP, the
  store has no entry for it, and the availability check answers true.
\<close>

lemma blacklisted_ip_without_entry_is_reached:
  "fst (addCircuit noZero cached (noDetails\<lparr> d_host := Some ''1.1.1.1'', d_port := Some 7777 \<rparr>)
          False (Some ''163.172.67.180'') 100000) = Returns ()
   \<and> circuits (snd (addCircuit noZero cached
          (noDetails\<lparr> d_host := Some ''1.1.1.1'', d_port := Some 7777 \<rparr>)
          False (Some ''163.172.67.180'') 100000)) = [0]
   \<and> activeExitNodeIP (circuitObj (snd (addCircuit noZero cached
          (noDetails\<lparr> d_host := Some ''1.1.1.1'', d_port := Some 7777 \<rparr>)
          False (Some ''163.172.67.180'') 100000)) 0) = Some ''163.172.67.180''
   \<and> reqStats (snd (addCircuit noZero cached
          (noDetails\<lparr> d_host := Some ''1.1.1.1'', d_port := Some 7777 \<rparr>)
          False (Some ''163.172.67.180'') 100000)) = []
   \<and> isBlacklisted (snd (addCircuit noZero cached
          (noDetails\<lparr> d_host := Some ''1.1.1.1'', d_port := Some 7777 \<rparr>)
          False (Some ''163.172.67.180'') 100000)) ''163.172.67.180''
   \<and> fst (isIPAvailableForRequests (snd (addCircuit noZero cached
          (noDetails\<lparr> d_host := Some ''1.1.1.1'', d_port := Some 7777 \<rparr>)
          False (Some ''163.172.67.180'') 100000))
          (Some ''163.172.67.180'') (Some ''api'') 100001) = Returns True"
proof -
  have c: "addToCyclingCircuitPool (new_ProxyCircuit (noDetails\<lparr> d_host := Some ''1.1.1.1'', d_port := Some 7777 \<rparr>))"
    "isLocalTor (new_ProxyCircuit (noDetails\<lparr> d_host := Some ''1.1.1.1'', d_port := Some 7777 \<rparr>)) = False"
    by (simp_all add: ctor_defs)
  show ?thesis
    by (simp add: addCircuit_def hasCircuit_def cached_fields c onChangedIP_def truthy_str_def
        initializeIPDataIfNotInitialized_def prop_key_def read_defs staleStore_blacklisted_key
        update_fresh setExitIP_def shouldPreenIPData_def staleStore_length
        compaction_of_the_cache attachPoller_def setPollingClient_def
        isIPAvailableForRequests_def Let_def)
qed

section \<open>Preening needs a series for every registered action\<close>










section \<open>An unrequested IP change\<close>

text \<open>
  C1 (the ambiguous window). The claim: the trailing timestamps of the old IP that are
  newer than the last poll are copied to the new IP, so that three actions reported on
  \<open>10.0.0.1\<close> after the poll at 1000 are afterwards under both IPs. The code takes
  \<open>slice(0, -i)\<close>, the points before the last \<open>i\<close>: the old series keeps its three
  entries, the new IP \<open>10.0.0.9\<close> gets none of them, and with the series
  \<open>[900, 950, 1001, 1002]\<close> it gets the two points that are older than the poll.
\<close>

theorem C1_copies_the_older_points:
  "fst (onUnrequestedIPChange noZero
          (pool (poolCircuit ''1.1.1.1'' ''10.0.0.1'' 100) (poolCircuit ''2.2.2.2'' ''10.0.0.2'' 100)
             [1001, 1002, 1003])
          0 (Some ''10.0.0.9'') False 2000) = Returns ()
   \<and> map_of (reqStats (snd (onUnrequestedIPChange noZero
          (pool (poolCircuit ''1.1.1.1'' ''10.0.0.1'' 100) (poolCircuit ''2.2.2.2'' ''10.0.0.2'' 100)
             [1001, 1002, 1003])
          0 (Some ''10.0.0.9'') False 2000))) ''10.0.0.1'' = Some [(''api'', [1001, 1002, 1003])]
   \<and> map_of (reqStats (snd (onUnrequestedIPChange noZero
          (pool (poolCircuit ''1.1.1.1'' ''10.0.0.1'' 100) (poolCircuit ''2.2.2.2'' ''10.0.0.2'' 100)
             [1001, 1002, 1003])
          0 (Some ''10.0.0.9'') False 2000))) ''10.0.0.9'' = Some [(''api'', [])]
   \<and> map_of (reqStats (snd (onUnrequestedIPChange noZero
          (pool (poolCircuit ''1.1.1.1'' ''10.0.0.1'' 100) (poolCircuit ''2.2.2.2'' ''10.0.0.2'' 100)
             [900, 950, 1001, 1002])
          0 (Some ''10.0.0.9'') False 2000))) ''10.0.0.9'' = Some [(''api'', [900, 950])]"
  by (simp add: onUnrequestedIPChange_def pool_fields poolCircuit_fields
      initializeIPDataIfNotInitialized_def prop_key_def countAmbiguous_def sliceZeroToMinus_def
      onChangedIP_def truthy_str_def setExitIP_def shouldPreenIPData_def read_defs Let_def)

section \<open>Adding circuits\<close>

lemma getIdentifier_frame [simp]:
  "getIdentifier (c\<lparr> activeExitNodeIP := a, lastIPPollTime := b \<rparr>) = getIdentifier c"
  "getIdentifier (setPollingClient c k) = getIdentifier c"
  by (simp_all add: getIdentifier_def getProxyIDString_def setPollingClient_def)

lemma onChangedIP_outcome:
  "fst (onChangedIP z s c newIp now) = Returns ()
   \<or> fst (onChangedIP z s c newIp now) = Throws MissingIP
   \<or> fst (onChangedIP z s c newIp now) = Throws TypeError
   \<or> fst (onChangedIP z s c newIp now) = Unmodelled"
proof (cases "truthy_str newIp")
  case False
  then show ?thesis by (simp add: onChangedIP_def)
next
  case True
  define s3 where "s3 = setExitIP ((initializeIPDataIfNotInitialized s newIp)\<lparr> isCurrentlyChanging := False \<rparr>) c newIp now"
  have "fst (freeOldIPData z s3 now) = Returns () \<or> fst (freeOldIPData z s3 now) = Throws TypeError
      \<or> fst (freeOldIPData z s3 now) = Unmodelled"
    unfolding freeOldIPData_def by (rule freeLoop_outcome)
  with True show ?thesis
    by (auto simp: onChangedIP_def Let_def s3_def split: prod.splits outcome.splits)
qed

lemma hasCircuit_list_ex:
  "hasCircuit s c = list_ex (\<lambda>r. getIdentifier (circuitObj s r) = getIdentifier c) (circuits s)"
  by (simp add: hasCircuit_def Let_def list_ex_iff filter_empty_conv)

lemma list_ex_fresh:
  "list_all (\<lambda>r. r < (n::nat)) rs \<Longrightarrow>
     list_ex (\<lambda>r. P ((f(n := x)) r)) rs = list_ex (\<lambda>r. P (f r)) rs"
  by (induction rs) auto

text \<open>
  C8 as the code has it. In a state whose pool holds circuits allocated earlier,
  \<open>addCircuit\<close> dies with DuplicateCircuit exactly when a circuit of the cycling pool has
  the identifier of the circuit being added. The named registry is not consulted.
\<close>

theorem C8_duplicate_iff_in_pool:
  assumes "list_all (\<lambda>r. r < nextCircuit s) (circuits s)"
  shows "fst (addCircuit z s details torStartFails extIp now) = Throws DuplicateCircuit
     \<longleftrightarrow> list_ex (\<lambda>r. getIdentifier (circuitObj s r) = getIdentifier (new_ProxyCircuit details))
           (circuits s)"
proof -
  define c where "c = nextCircuit s"
  define s0 where "s0 = s\<lparr> circuitObj := (circuitObj s)(c := new_ProxyCircuit details),
                           nextCircuit := Suc c \<rparr>"
  define s1 where "s1 = (if isLocalTor (circuitObj s0 c)
                         then s0\<lparr> isCurrentlyRestarting := False \<rparr> else s0)"
  have h: "hasCircuit s0 (circuitObj s0 c)
      = list_ex (\<lambda>r. getIdentifier (circuitObj s r) = getIdentifier (new_ProxyCircuit details))
          (circuits s)"
    using assms list_ex_fresh [of "nextCircuit s" "circuits s"
        "\<lambda>y. getIdentifier y = getIdentifier (new_ProxyCircuit details)" "circuitObj s"
        "new_ProxyCircuit details"]
    by (simp add: hasCircuit_list_ex s0_def c_def)
  have a: "addCircuit z s details torStartFails extIp now =
     (if hasCircuit s0 (circuitObj s0 c) then (Throws DuplicateCircuit, s0)
      else if isLocalTor (circuitObj s0 c) \<and> torStartFails then (Throws IOError, s0)
      else (case onChangedIP z s1 c extIp now of
                 (Returns _, s2) \<Rightarrow>
                   (if addToCyclingCircuitPool (circuitObj s2 c)
                    then (Returns (), attachPoller (s2\<lparr> circuits := circuits s2 @ [c] \<rparr>) c)
                    else if \<not> truthy_str (cname (circuitObj s2 c))
                    then (Throws UnnamedRigidCircuit, s2)
                    else (Returns (),
                          attachPoller
                            (s2\<lparr> namedCircuits :=
                                   jsSet (prop_key (cname (circuitObj s2 c))) c
                                     (namedCircuits s2) \<rparr>) c))
               | (Throws e, s2) \<Rightarrow> (Throws e, s2)
               | (Pending, s2) \<Rightarrow> (Pending, s2)
               | (Unmodelled, s2) \<Rightarrow> (Unmodelled, s2)))"
    unfolding addCircuit_def Let_def s1_def s0_def c_def by (rule refl)
  show ?thesis
  proof (cases "hasCircuit s0 (circuitObj s0 c)")
    case True
    with a h show ?thesis by simp
  next
    case False
    have "fst (addCircuit z s details torStartFails extIp now) \<noteq> Throws DuplicateCircuit"
      using False onChangedIP_outcome [of z s1 c extIp now]
      by (auto simp: a split: prod.splits outcome.splits)
    with False h show ?thesis by simp
  qed
qed

text \<open>
  An instance: with the proxies \<open>1.1.1.1\<close> and \<open>2.2.2.2\<close> in the pool, adding
  \<open>2.2.2.2\<close> again dies with DuplicateCircuit and adding \<open>4.4.4.4\<close> does not.
\<close>

theorem C8_duplicate_iff_in_pool_witness:
  "fst (addCircuit noZero
         (pool (poolCircuit ''1.1.1.1'' ''10.0.0.1'' 100) (poolCircuit ''2.2.2.2'' ''10.0.0.2'' 100) [])
         (noDetails\<lparr> d_host := Some ''2.2.2.2'', d_port := Some 7777 \<rparr>)
         False (Some ''10.0.0.4'') 3000) = Throws DuplicateCircuit
   \<and> fst (addCircuit noZero
         (pool (poolCircuit ''1.1.1.1'' ''10.0.0.1'' 100) (poolCircuit ''2.2.2.2'' ''10.0.0.2'' 100) [])
         (noDetails\<lparr> d_host := Some ''4.4.4.4'', d_port := Some 7777 \<rparr>)
         False (Some ''10.0.0.4'') 3000) \<noteq> Throws DuplicateCircuit"
proof -
  let ?s = "pool (poolCircuit ''1.1.1.1'' ''10.0.0.1'' 100) (poolCircuit ''2.2.2.2'' ''10.0.0.2'' 100) []"
  have wf: "list_all (\<lambda>r. r < nextCircuit ?s) (circuits ?s)"
    by (simp add: pool_def)
  have id: "\<And>h. getIdentifier (new_ProxyCircuit (noDetails\<lparr> d_host := Some h, d_port := Some 7777 \<rparr>))
              = ''socks5h://'' @ h @ '':7777''"
    by (simp add: ctor_defs getIdentifier_def getProxyIDString_def truthy_str_def string_of_7777)
  show ?thesis
    using C8_duplicate_iff_in_pool [OF wf, of noZero "noDetails\<lparr> d_host := Some ''2.2.2.2'', d_port := Some 7777 \<rparr>" False "Some ''10.0.0.4''" 3000]
      C8_duplicate_iff_in_pool [OF wf, of noZero "noDetails\<lparr> d_host := Some ''4.4.4.4'', d_port := Some 7777 \<rparr>" False "Some ''10.0.0.4''" 3000]
    by (simp add: id pool_fields poolCircuit_fields)
qed

text \<open>
  C8 as stated fails: the named circuit \<open>login_proxy\<close> is added to a manager without
  circuits, and added again. Both calls return; the second replaces the registry entry.
\<close>

theorem C8_named_duplicate_is_accepted:
  "fst (addCircuit noZero registered namedDetails False (Some ''10.0.0.3'') 1000) = Returns ()
   \<and> namedCircuits (snd (addCircuit noZero registered namedDetails False (Some ''10.0.0.3'') 1000))
       = [(''login_proxy'', 0)]
   \<and> fst (addCircuit noZero
            (snd (addCircuit noZero registered namedDetails False (Some ''10.0.0.3'') 1000))
            namedDetails False (Some ''10.0.0.3'') 2000) = Returns ()
   \<and> namedCircuits (snd (addCircuit noZero
            (snd (addCircuit noZero registered namedDetails False (Some ''10.0.0.3'') 1000))
            namedDetails False (Some ''10.0.0.3'') 2000)) = [(''login_proxy'', 1)]"
  by (simp add: addCircuit_def registered_fields hasCircuit_def new_named_fields
      onChangedIP_def truthy_str_def initializeIPDataIfNotInitialized_def prop_key_def
      setExitIP_def shouldPreenIPData_def attachPoller_def read_defs Let_def)

section \<open>Random selection\<close>

text \<open>
  C3 (unhealthy circuits are skipped). The claim: with more than one circuit in the
  pool, an unhealthy circuit is returned only if it is the excluded one and all others
  are unhealthy. In the code \<open>continue\<close> leads to the loop condition, which is false
  when nothing is excluded or the draw is not the excluded circuit, and the unhealthy
  draw is returned: circuit 1 of the pool of two with nothing excluded and circuit 0
  healthy, and circuit 1 of the pool of three with circuit 0 excluded and circuit 3
  healthy.
\<close>

theorem C3_unhealthy_circuit_returned:
  "getRandomCircuit
      (pool (poolCircuit ''1.1.1.1'' ''10.0.0.1'' 100) (poolCircuit ''2.2.2.2'' ''10.0.0.2'' 10) [])
      None True [1] = (Returns (Some 1), [])
   \<and> isHealthy (circuitObj
        (pool (poolCircuit ''1.1.1.1'' ''10.0.0.1'' 100) (poolCircuit ''2.2.2.2'' ''10.0.0.2'' 10) []) 0)
   \<and> \<not> isHealthy (circuitObj
        (pool (poolCircuit ''1.1.1.1'' ''10.0.0.1'' 100) (poolCircuit ''2.2.2.2'' ''10.0.0.2'' 10) []) 1)
   \<and> getRandomCircuit threePool (Some 0) True [1] = (Returns (Some 1), [])
   \<and> \<not> isHealthy (circuitObj threePool 1)
   \<and> isHealthy (circuitObj threePool 3)
   \<and> circuits threePool = [0, 1, 3]"
  by (simp add: random_defs pool_fields poolCircuit_fields threePool_def)

section \<open>Removing a circuit\<close>

text \<open>
  C4 (\<open>_removeCircuit\<close>). The claim: the circuit is marked invalid and removed from the
  collection it belongs to, without error. The code tests \<open>addToCyclingCircuitPool\<close>
  the other way round: removing circuit 0 of the cycling pool marks it invalid and
  leaves it in the pool (its client is rebound), and removing the named circuit 2 dies
  because it is not in the pool, with the registry entry still there.
\<close>

theorem C4_circuit_stays_in_its_collection:
  "fst (removeCircuit
          (pool (poolCircuit ''1.1.1.1'' ''10.0.0.1'' 100) (poolCircuit ''2.2.2.2'' ''10.0.0.2'' 100) [])
          0 [1] False) = Returns 0
   \<and> circuits (fst (snd (removeCircuit
          (pool (poolCircuit ''1.1.1.1'' ''10.0.0.1'' 100) (poolCircuit ''2.2.2.2'' ''10.0.0.2'' 100) [])
          0 [1] False))) = [0, 1]
   \<and> valid (circuitObj (fst (snd (removeCircuit
          (pool (poolCircuit ''1.1.1.1'' ''10.0.0.1'' 100) (poolCircuit ''2.2.2.2'' ''10.0.0.2'' 100) [])
          0 [1] False))) 0) = False
   \<and> fst (removeCircuit
          (pool (poolCircuit ''1.1.1.1'' ''10.0.0.1'' 100) (poolCircuit ''2.2.2.2'' ''10.0.0.2'' 100) [])
          2 [] False) = Throws CircuitNotInPool
   \<and> namedCircuits (fst (snd (removeCircuit
          (pool (poolCircuit ''1.1.1.1'' ''10.0.0.1'' 100) (poolCircuit ''2.2.2.2'' ''10.0.0.2'' 100) [])
          2 [] False))) = [(''login_proxy'', 2)]"
  by (simp add: removeCircuit_def markInvalid_fields client_changeToRandomCircuit_def random_defs
      pool_fields poolCircuit_fields namedCircuit_fields prop_key_def)

section \<open>The retry loop\<close>

text \<open>
  C6 (\<open>_definitivelyChangeToAvailableIP\<close>). The claim: up to seven rotations, each
  followed by a probe, and success when the observed IP differs. With no global
  property \<open>actualExitIP\<close> the function throws a ReferenceError at its first read of
  that identifier, for every circuit and every answer of the environment: no rotation
  is made, \<open>_onChangedIP\<close> is not called, and the changing gate stays set.
\<close>

theorem C6_throws_before_the_first_try:
  "definitivelyChangeToAvailableIP z s c noGlobals firstProbe io now
     = (Throws ReferenceError, s\<lparr> isCurrentlyChanging := True \<rparr>)"
  by (simp add: definitivelyChangeToAvailableIP_def noGlobals_def)

section \<open>The client\<close>

text \<open>
  C7 (\<open>changeIPIfNecessary\<close> of the client). The claim: when the current IP is not
  available the call forces a change and returns true. The IP \<open>10.0.0.1\<close> has used
  its two actions; for the client on a cycling proxy the call rebinds the client to
  circuit 1 and returns undefined, and for a client on an onion-routed circuit it
  throws a TypeError, the manager's method being called without the circuit.
\<close>

theorem C7_change_returns_undefined:
  "fst (isIPAvailableForRequests
          (pool (poolCircuit ''1.1.1.1'' ''10.0.0.1'' 100) (poolCircuit ''2.2.2.2'' ''10.0.0.2'' 100)
             [1500, 1600])
          (Some ''10.0.0.1'') (Some ''api'') 2000) = Returns False
   \<and> fst (client_changeIPIfNecessary noZero
          (pool (poolCircuit ''1.1.1.1'' ''10.0.0.1'' 100) (poolCircuit ''2.2.2.2'' ''10.0.0.2'' 100)
             [1500, 1600])
          0 (Some ''api'') noGlobals 7 None [] [1] 2000) = Returns JUndefined
   \<and> circuit (clientObj (fst (snd (client_changeIPIfNecessary noZero
          (pool (poolCircuit ''1.1.1.1'' ''10.0.0.1'' 100) (poolCircuit ''2.2.2.2'' ''10.0.0.2'' 100)
             [1500, 1600])
          0 (Some ''api'') noGlobals 7 None [] [1] 2000))) 0) = Some 1
   \<and> fst (client_changeIPIfNecessary noZero
          (pool torCircuit (poolCircuit ''2.2.2.2'' ''10.0.0.2'' 100) [1500, 1600])
          0 (Some ''api'') noGlobals 7 None [] [1] 2000) = Throws TypeError"
  by (simp add: client_changeIPIfNecessary_def client_forceIPChangeImmediately_def
      forceIPChangeImmediately_def client_changeToRandomCircuit_def random_defs
      isIPAvailableForRequests_def preenOldRequestsForIP_def prop_key_def read_defs
      pool_fields poolCircuit_fields torCircuit_fields)

end
